theory Spec2Isabelle
  imports Main
begin

section \<open>Data model\<close>

text \<open>
  The value objects exchanged between the client and the generation endpoint.
  JavaScript numbers (prices, costs, room dimensions) are kept as a type
  parameter \<open>'n\<close>: the code only stores them, tests them for truthiness and
  splices them into template strings.

  The palettes of a plan are kept as a type parameter \<open>'p\<close> as well. The prompt
  builders read the two properties that the type \<open>ColorPalette\<close> declares, and are
  defined on that record; the orchestrator only moves palettes around, except for the
  more-palettes flow, which compares their \<open>JSON.stringify\<close> texts and so depends on
  everything the parsed object carries (see \<open>jsonObject\<close> below).
\<close>

record ColorPalette =
  color :: string
  accent :: string

record 'n FurnitureSuggestion =
  name :: string
  description :: string
  placement :: string
  estimatedPrice :: 'n
  modelUrl :: "string option"

record 'n EstimatedCost =
  costMin :: 'n
  costMax :: 'n
  currency :: string

record ('n, 'p) DesignPlan =
  analysis :: string
  designRationale :: string
  wallColor :: 'p
  lighting :: string
  flooring :: string
  furnitureSuggestions :: "'n FurnitureSuggestion list"
  estimatedCost :: "'n EstimatedCost"
  alternativePalettes :: "'p list"

text \<open>
  \<open>RoomDimensions\<close>: width and length are a number or the empty string
  (the initial state of the form is \<open>{ width: '', length: '', unit: 'ft' }\<close>).
\<close>

datatype 'n dimValue = Blank | Num 'n

record 'n RoomDimensions =
  width :: "'n dimValue"
  length_dim :: "'n dimValue"
  unit :: string

section \<open>String helpers of the JavaScript runtime\<close>

text \<open>\<open>Array.prototype.join\<close> on an array of strings.\<close>

fun join :: "string \<Rightarrow> string list \<Rightarrow> string" where
  "join sep [] = []"
| "join sep [x] = x"
| "join sep (x # y # ys) = x @ sep @ join sep (y # ys)"

text \<open>\<open>String.prototype.toLowerCase\<close> on the ASCII range.\<close>

definition toLowerChar :: "char \<Rightarrow> char" where
  "toLowerChar c =
     (let n = (of_char c :: nat) in if 65 \<le> n \<and> n \<le> 90 then char_of (n + 32) else c)"

definition toLowerCase :: "string \<Rightarrow> string" where
  "toLowerCase s = map toLowerChar s"

text \<open>Decimal rendering of a non-negative integer, as a template literal does.\<close>

definition digitChar :: "nat \<Rightarrow> char" where
  "digitChar d = char_of (48 + d)"

fun showNat :: "nat \<Rightarrow> string" where
  "showNat n = (if n < 10 then [digitChar n] else showNat (n div 10) @ [digitChar (n mod 10)])"

declare showNat.simps [simp del]

section \<open>The generative backend's response shape\<close>

text \<open>
  \<open>{candidates: [{content: {parts}, finishReason?, safetyRatings?}]}\<close>; every
  property the handler reads through \<open>?.\<close> or tests for truthiness is optional.
\<close>

record InlineData =
  mimeType :: "string option"
  data :: "string option"






section \<open>Generation gateway: response mapping of generateRedesignedImage\<close>

text \<open>
  The definitions of the gateway follow the handler at the head of
  \<open>api/generate.ts\<close>, the one with the diagnostic error path. The file carries a
  second, shorter copy of the handler after it, which throws one fixed message.
\<close>





text \<open>Truthiness of an optional string (\<open>undefined\<close> and \<open>''\<close> are falsy).\<close>

definition truthy :: "string option \<Rightarrow> bool" where
  "truthy s = (case s of None \<Rightarrow> False | Some t \<Rightarrow> t \<noteq> [])"

















text \<open>
  What the endpoint answers: status, and the \<open>imageBytes\<close> and \<open>error\<close>
  properties of the JSON body. A thrown error is caught by the handler's outer
  \<open>catch\<close> and becomes a 500 with \<open>Server error: <message>\<close>.
\<close>

record ApiResponse =
  status :: nat
  imageBytes :: "string option"
  errorField :: "string option"




section \<open>Prompt builders\<close>

definition newline :: string where
  "newline = [CHR 0x0A]"

subsection \<open>generateDesignIdeas\<close>

text \<open>
  Truthiness of \<open>dimensions.width\<close> and \<open>dimensions.length\<close>: the empty string
  and the number zero are falsy. (A request body is JSON, so NaN cannot arrive.)
\<close>

definition dimTruthy :: "'n::zero dimValue \<Rightarrow> bool" where
  "dimTruthy v = (case v of Blank \<Rightarrow> False | Num x \<Rightarrow> x \<noteq> 0)"

definition unitName :: "string \<Rightarrow> string" where
  "unitName u = (if u = ''ft'' then ''feet'' else ''meters'')"

text \<open>
  The clause spliced into the prompt when dimensions are given. \<open>toStr\<close> is the
  runtime's conversion of a number to a string inside a template literal.
\<close>

definition dimensionClause :: "string \<Rightarrow> string \<Rightarrow> string \<Rightarrow> string" where
  "dimensionClause w l u =
     '' The user has specified the room is approximately '' @ w @ '' '' @ u @
     '' wide by '' @ l @ '' '' @ u @
     '' long. Please ensure your furniture suggestions and layout advice are appropriately scaled for a room of this size and explicitly mention this in your analysis.''"

definition dimensionText :: "('n::zero \<Rightarrow> string) \<Rightarrow> 'n RoomDimensions option \<Rightarrow> string" where
  "dimensionText toStr dimensions =
     (case dimensions of
        None \<Rightarrow> []
      | Some d \<Rightarrow>
          (if dimTruthy (width d) \<and> dimTruthy (length_dim d)
           then (case (width d, length_dim d) of
                   (Num w, Num l) \<Rightarrow> dimensionClause (toStr w) (toStr l) (unitName (unit d))
                 | _ \<Rightarrow> [])
           else []))"

definition planPromptIntro :: "string \<Rightarrow> string \<Rightarrow> string" where
  "planPromptIntro roomType style =
     ''You are a world-class AI interior designer with a keen eye for detail and aesthetics. Analyze the provided room image, which is a '' @
     roomType @
     '', and generate a complete design makeover plan in a friendly and inspiring tone. The user wants a \"'' @
     style @
     ''\" style. Your recommendations must be appropriate for a '' @
     roomType @
     ''. Your goal is to create a truly inspiring and practical makeover plan.'' @
     newline @
     ''                ''"

definition planPromptTasks :: "string \<Rightarrow> string" where
  "planPromptTasks style =
     newline @
     ''                Your tasks are:'' @
     newline @
     ''                1. Briefly analyze the current room's strengths and weaknesses.'' @
     newline @
     ''                2. Suggest a full makeover based on the selected style, keeping the provided dimensions in mind if available.'' @
     newline @
     ''                3. Output specific ideas for a primary wall color palette, flooring, and lighting.'' @
     newline @
     ''                4. Recommend 3-5 key furniture or decor items with detailed descriptions and placement suggestions. Ensure items are scaled correctly for the room. For each recommended item, you must also provide a `modelUrl`, which should be a publicly accessible URL to a 3D model of the item, preferably in GLTF or OBJ format. If a real model cannot be found, provide a realistic placeholder URL (e.g., 'https://models.example.com/modern_chair.gltf').'' @
     newline @
     ''                5. Provide a realistic, estimated total budget range (min and max) for the complete makeover. Also, include an estimated price for each recommended furniture item. All monetary values should be in USD.'' @
     newline @
     ''                6. Also provide exactly 3 alternative color palettes (primary and accent) that would offer a different mood while still fitting the requested style.'' @
     newline @
     ''                7. Provide a 'Design Rationale' explaining why your suggestions create a cohesive and high-quality '' @
     [CHR 0x27] @
     style @
     [CHR 0x27] @
     '' design, touching on principles like balance, harmony, or focal points.'' @
     newline @
     newline @
     ''                Provide the output in JSON format according to the provided schema. Ensure the descriptions are vivid and helpful.''"

text \<open>The text part sent to the backend by \<open>case 'generateDesignIdeas'\<close>.\<close>

definition planPrompt ::
  "('n::zero \<Rightarrow> string) \<Rightarrow> string \<Rightarrow> string \<Rightarrow> 'n RoomDimensions option \<Rightarrow> string" where
  "planPrompt toStr roomType style dimensions =
     planPromptIntro roomType style @ dimensionText toStr dimensions @ planPromptTasks style"

subsection \<open>generateRedesignedImage\<close>

definition furnitureList :: "('n, 'p) DesignPlan \<Rightarrow> string" where
  "furnitureList designPlan = join '', '' (map name (furnitureSuggestions designPlan))"

text \<open>\<open>newColors?.color || designPlan.wallColor.color\<close>\<close>

definition primaryColor ::
  "ColorPalette option \<Rightarrow> ('n, ColorPalette) DesignPlan \<Rightarrow> string" where
  "primaryColor newColors designPlan =
     (case newColors of
        None \<Rightarrow> color (wallColor designPlan)
      | Some p \<Rightarrow> if color p \<noteq> [] then color p else color (wallColor designPlan))"

text \<open>\<open>newColors?.accent || designPlan.wallColor.accent\<close>\<close>

definition accentColor ::
  "ColorPalette option \<Rightarrow> ('n, ColorPalette) DesignPlan \<Rightarrow> string" where
  "accentColor newColors designPlan =
     (case newColors of
        None \<Rightarrow> accent (wallColor designPlan)
      | Some p \<Rightarrow> if accent p \<noteq> [] then accent p else accent (wallColor designPlan))"

definition isExterior :: "string \<Rightarrow> bool" where
  "isExterior roomType = (toLowerCase roomType = ''exterior'')"

definition exteriorOutputLine :: string where
  "exteriorOutputLine =
     ''Output: Return ONLY the final, edited image without any surrounding text or explanation.''"

definition interiorOutputLine :: string where
  "interiorOutputLine =
     ''Output: Return ONLY the final, redesigned image without any surrounding text or explanation.''"

definition exteriorPrompt :: "string \<Rightarrow> string \<Rightarrow> string \<Rightarrow> string \<Rightarrow> string \<Rightarrow> string" where
  "exteriorPrompt style primary accnt furniture light =
     ''Task: Redesign this building exterior in a photorealistic \"'' @ style @ ''\" style.'' @
     newline @
     ''Instructions:'' @
     newline @
     ''1. Change the main color to \"'' @ primary @ ''\" with \"'' @ accnt @ ''\" accents.'' @
     newline @
     ''2. Update landscaping and add outdoor items: '' @ furniture @ ''.'' @
     newline @
     ''3. The lighting should be \"'' @ light @ ''\".'' @
     newline @
     ''4. IMPORTANT: Do not alter the building's core structure (walls, windows, roof).'' @
     newline @
     exteriorOutputLine"

definition interiorPrompt ::
  "string \<Rightarrow> string \<Rightarrow> string \<Rightarrow> string \<Rightarrow> string \<Rightarrow> string \<Rightarrow> string" where
  "interiorPrompt roomType style primary floor furniture light =
     ''Task: Redesign the interior of this '' @ roomType @
     '' photorealistically in the \"'' @ style @ ''\" style.'' @
     newline @
     ''Instructions:'' @
     newline @
     ''1. Remove ALL existing furniture, decor, and items from the room.'' @
     newline @
     ''2. Change the wall color to \"'' @ primary @ ''\".'' @
     newline @
     ''3. Change the floor to \"'' @ floor @ ''\".'' @
     newline @
     ''4. Add the following new furniture, arranged in a natural and functional layout: '' @
     furniture @ ''.'' @
     newline @
     ''5. Adjust the lighting to be like \"'' @ light @ ''\".'' @
     newline @
     ''6. IMPORTANT: Do not alter the room's core structure (windows, doors, architectural features).'' @
     newline @
     interiorOutputLine"

text \<open>The text part sent to the backend by \<open>case 'generateRedesignedImage'\<close>.\<close>

definition imagePrompt ::
  "('n, ColorPalette) DesignPlan \<Rightarrow> string \<Rightarrow> string \<Rightarrow> ColorPalette option \<Rightarrow> string" where
  "imagePrompt designPlan style roomType newColors =
     (if isExterior roomType
      then exteriorPrompt style (primaryColor newColors designPlan)
             (accentColor newColors designPlan) (furnitureList designPlan) (lighting designPlan)
      else interiorPrompt roomType style (primaryColor newColors designPlan)
             (flooring designPlan) (furnitureList designPlan) (lighting designPlan))"

subsection \<open>generateMorePalettes\<close>

definition paletteLine :: "ColorPalette \<Rightarrow> string" where
  "paletteLine p = ''- '' @ color p @ '' & '' @ accent p"

definition existingPalettes :: "('n, ColorPalette) DesignPlan \<Rightarrow> string" where
  "existingPalettes designPlan =
     join newline (map paletteLine (wallColor designPlan # alternativePalettes designPlan))"

definition morePalettesIntro :: "string \<Rightarrow> string \<Rightarrow> string" where
  "morePalettesIntro style analysisText =
     ''You are an AI color consultant for an interior design app. Based on the following design analysis for a \"'' @
     style @
     ''\" themed room, please generate exactly 3 new and distinct color palettes. **Design Analysis:** '' @
     analysisText @
     '' **Important:** The user has already seen the following palettes, so please provide completely different options that suggest different moods (e.g., one calming, one energetic, one sophisticated): ''"

definition morePalettesOutro :: string where
  "morePalettesOutro =
     '' Return the output as a JSON array of objects, where each object has a 'color' and 'accent' property, according to the provided schema.''"

text \<open>The text part sent to the backend by \<open>case 'generateMorePalettes'\<close>.\<close>

definition morePalettesPrompt :: "('n, ColorPalette) DesignPlan \<Rightarrow> string \<Rightarrow> string" where
  "morePalettesPrompt designPlan style =
     morePalettesIntro style (analysis designPlan) @ existingPalettes designPlan @ morePalettesOutro"

section \<open>Client service\<close>

text \<open>
  \<open>callApi\<close>: the argument is what \<open>fetch\<close> and \<open>response.json()\<close> deliver,
  \<open>Inl\<close> when one of them threw (the error is rethrown as it is), \<open>Inr\<close> the
  status and the parsed body otherwise. \<open>response.ok\<close> is a status of 200 to 299.
\<close>

definition responseOk :: "ApiResponse \<Rightarrow> bool" where
  "responseOk r = (200 \<le> status r \<and> status r \<le> 299)"

definition callApi :: "string + ApiResponse \<Rightarrow> string + ApiResponse" where
  "callApi fetched =
     (case fetched of
        Inl e \<Rightarrow> Inl e
      | Inr r \<Rightarrow>
          if \<not> responseOk r
          then Inl (if truthy (errorField r) then the (errorField r)
                    else ''API request failed with status '' @ showNat (status r))
          else Inr r)"

definition noImageDataMessage :: string where
  "noImageDataMessage = ''API response did not include image data.''"

text \<open>The client's \<open>generateRedesignedImage\<close>: \<open>Inl\<close> is the message of the error thrown.\<close>

definition generateRedesignedImage :: "string + ApiResponse \<Rightarrow> string + string" where
  "generateRedesignedImage fetched =
     (case callApi fetched of
        Inl e \<Rightarrow> Inl e
      | Inr result \<Rightarrow>
          if \<not> truthy (imageBytes result) then Inl noImageDataMessage
          else Inr (the (imageBytes result)))"

section \<open>Client orchestrator\<close>

text \<open>
  The state of the \<open>App\<close> component that its three flows read and write (the
  theme, the image preview and the room dimensions, which the flows never write, are
  left out). The outcome of an awaited service call is a parameter of the handler:
  \<open>Inl\<close> the message of a rejected promise, \<open>Inr\<close> the value of a fulfilled one.
\<close>

record ('n, 'p) AppState =
  selectedRoomType :: string
  selectedStyle :: string
  uploadedImage :: "string option"
  designPlan :: "('n, 'p) DesignPlan option"
  generatedImage :: "string option"
  isLoading :: bool
  isRegenerating :: bool
  isFetchingPalettes :: bool
  error :: "string option"
  feedbackSubmitted :: bool

definition missingInputMessage :: string where
  "missingInputMessage = ''Please upload an image, select a room type, and a design style.''"

definition planKeptMessage :: string where
  "planKeptMessage =
     ''I've created the design plan, but couldn't visualize the room. You can still see the ideas below!''"

definition planFailedMessage :: string where
  "planFailedMessage =
     ''Sorry, I couldn't generate a design plan. This can happen if the AI is under heavy load or if the image is unsuitable for analysis. Please try again in a few moments, or with a different photo.''"

definition recolorFailedMessage :: string where
  "recolorFailedMessage =
     ''Sorry, I couldn't visualize the new colors. The AI might be busy. Please try selecting them again in a moment.''"

definition palettesFailedMessage :: string where
  "palettesFailedMessage =
     ''Sorry, couldn't fetch more color ideas right now. The AI might be busy. Please try again in a bit.''"

definition dataUrl :: "string \<Rightarrow> string" where
  "dataUrl bytes = ''data:image/jpeg;base64,'' @ bytes"

subsection \<open>Primary flow\<close>

text \<open>
  \<open>handleGenerateClick\<close>. \<open>ideas\<close> is the outcome of \<open>generateDesignIdeas\<close>,
  \<open>redesign\<close> the outcome of the \<open>generateRedesignedImage\<close> call that follows it
  (made only when the first one succeeded). The \<open>catch\<close> block tells the two
  failures apart by \<open>newPlan\<close>; \<open>finally\<close> clears \<open>isLoading\<close>.
\<close>

definition handleGenerateClick ::
  "('n, 'p) AppState \<Rightarrow> string + ('n, 'p) DesignPlan \<Rightarrow> string + string \<Rightarrow> ('n, 'p) AppState" where
  "handleGenerateClick st ideas redesign =
     (if \<not> truthy (uploadedImage st) \<or> selectedStyle st = [] \<or> selectedRoomType st = []
      then st\<lparr>error := Some missingInputMessage\<rparr>
      else
        let st1 = st\<lparr>isLoading := True, error := None, designPlan := None,
                      generatedImage := None, feedbackSubmitted := False\<rparr>
        in case ideas of
             Inl e \<Rightarrow> st1\<lparr>error := Some planFailedMessage, isLoading := False\<rparr>
           | Inr newPlan \<Rightarrow>
               let st2 = st1\<lparr>designPlan := Some newPlan\<rparr>
               in if \<not> truthy (uploadedImage st)
                  then st2\<lparr>error := Some planKeptMessage, isLoading := False\<rparr>
                  else (case redesign of
                          Inl e \<Rightarrow> st2\<lparr>error := Some planKeptMessage, isLoading := False\<rparr>
                        | Inr bytes \<Rightarrow>
                            st2\<lparr>generatedImage := Some (dataUrl bytes), isLoading := False\<rparr>))"

text \<open>
  What the component renders for \<open>error\<close>: a red box on the input form while
  there is no plan (and nothing is loading), a yellow box above the plan when
  there is one.
\<close>

datatype banner = NoBanner | RedError string | YellowWarning string

definition errorBanner :: "('n, 'p) AppState \<Rightarrow> banner" where
  "errorBanner st =
     (if \<not> truthy (error st) then NoBanner
      else case designPlan st of
             Some _ \<Rightarrow> YellowWarning (the (error st))
           | None \<Rightarrow> if isLoading st then NoBanner else RedError (the (error st)))"

subsection \<open>Recolor flow\<close>

text \<open>
  \<open>handleColorChange\<close>, in two steps: the state when the handler reaches its
  \<open>await\<close> (the plan already carries the new palette), and the state once the
  image call has settled.
\<close>

definition colorChangeAllowed :: "('n, 'p) AppState \<Rightarrow> bool" where
  "colorChangeAllowed st = (designPlan st \<noteq> None \<and> truthy (uploadedImage st))"

definition handleColorChangePending :: "('n, 'p) AppState \<Rightarrow> 'p \<Rightarrow> ('n, 'p) AppState" where
  "handleColorChangePending st newColors =
     (if \<not> colorChangeAllowed st then st
      else
        let updatedPlan = (the (designPlan st))\<lparr>wallColor := newColors\<rparr>
        in st\<lparr>isRegenerating := True, generatedImage := None, error := None,
              designPlan := Some updatedPlan\<rparr>)"

definition handleColorChange ::
  "('n, 'p) AppState \<Rightarrow> 'p \<Rightarrow> string + string \<Rightarrow> ('n, 'p) AppState" where
  "handleColorChange st newColors redesign =
     (if \<not> colorChangeAllowed st then st
      else
        let st1 = handleColorChangePending st newColors
        in case redesign of
             Inr bytes \<Rightarrow>
               st1\<lparr>generatedImage := Some (dataUrl bytes), isRegenerating := False\<rparr>
           | Inl e \<Rightarrow> st1\<lparr>error := Some recolorFailedMessage, isRegenerating := False\<rparr>)"

subsection \<open>More-palettes flow\<close>

text \<open>
  The flow compares palettes by their \<open>JSON.stringify\<close> texts, and the palettes it
  compares are objects parsed from the backend's JSON, passed through unchanged by the
  endpoint. Such an object is modelled by its own properties in the order in which the
  runtime enumerates them (for property names that are not array indices, the order of
  the JSON text): nothing in the type \<open>ColorPalette\<close> fixes that order or excludes a
  further property. Property values are strings, as the response schema types them.
\<close>

type_synonym jsonObject = "(string \<times> string) list"

text \<open>
  \<open>JSON.stringify\<close>. String quoting escapes the double quote, the backslash and the
  control characters below U+0020; an object is written as its properties, each as
  quoted name, colon and quoted value, separated by commas.
\<close>

definition hexDigit :: "nat \<Rightarrow> char" where
  "hexDigit d = (if d < 10 then char_of (48 + d) else char_of (87 + d))"

definition escapeChar :: "char \<Rightarrow> string" where
  "escapeChar c =
     (if c = CHR 0x22 then [CHR 0x5C, CHR 0x22]
      else if c = CHR 0x5C then [CHR 0x5C, CHR 0x5C]
      else if c = CHR 0x08 then [CHR 0x5C, CHR ''b'']
      else if c = CHR 0x0C then [CHR 0x5C, CHR ''f'']
      else if c = CHR 0x0A then [CHR 0x5C, CHR ''n'']
      else if c = CHR 0x0D then [CHR 0x5C, CHR ''r'']
      else if c = CHR 0x09 then [CHR 0x5C, CHR ''t'']
      else if (of_char c :: nat) < 32
      then [CHR 0x5C, CHR ''u'', CHR ''0'', CHR ''0'',
            hexDigit ((of_char c :: nat) div 16), hexDigit ((of_char c :: nat) mod 16)]
      else [c])"

definition quoteJSONString :: "string \<Rightarrow> string" where
  "quoteJSONString s = CHR 0x22 # concat (map escapeChar s) @ [CHR 0x22]"

definition stringifyProperty :: "string \<times> string \<Rightarrow> string" where
  "stringifyProperty kv = quoteJSONString (fst kv) @ '':'' @ quoteJSONString (snd kv)"

definition stringify :: "jsonObject \<Rightarrow> string" where
  "stringify obj = ''{'' @ join '','' (map stringifyProperty obj) @ ''}''"

text \<open>
  Reading a property, as \<open>p.color\<close> does: \<open>None\<close> stands for \<open>undefined\<close>. Two
  palette objects are equal field by field when their \<open>color\<close> and their \<open>accent\<close>
  agree.
\<close>

definition getProperty :: "jsonObject \<Rightarrow> string \<Rightarrow> string option" where
  "getProperty obj k = map_of obj k"

definition sameFields :: "jsonObject \<Rightarrow> jsonObject \<Rightarrow> bool" where
  "sameFields p q =
     (getProperty p ''color'' = getProperty q ''color''
      \<and> getProperty p ''accent'' = getProperty q ''accent'')"

text \<open>The updater passed to \<open>setDesignPlan\<close> by \<open>handleSuggestMorePalettes\<close>.\<close>

definition mergePalettes ::
  "('n, jsonObject) DesignPlan option \<Rightarrow> jsonObject list \<Rightarrow> ('n, jsonObject) DesignPlan option" where
  "mergePalettes prevPlan newPalettes =
     (case prevPlan of
        None \<Rightarrow> None
      | Some prev \<Rightarrow>
          let existingPalettes = map stringify (alternativePalettes prev);
              uniqueNewPalettes =
                filter (\<lambda>p. \<not> List.member existingPalettes (stringify p)) newPalettes
          in Some (prev\<lparr>alternativePalettes := alternativePalettes prev @ uniqueNewPalettes\<rparr>))"

definition handleSuggestMorePalettes ::
  "('n, jsonObject) AppState \<Rightarrow> string + jsonObject list \<Rightarrow> ('n, jsonObject) AppState" where
  "handleSuggestMorePalettes st palettes =
     (if designPlan st = None then st
      else
        let st1 = st\<lparr>isFetchingPalettes := True, error := None\<rparr>
        in case palettes of
             Inr newPalettes \<Rightarrow>
               st1\<lparr>designPlan := mergePalettes (designPlan st1) newPalettes,
                    isFetchingPalettes := False\<rparr>
           | Inl e \<Rightarrow> st1\<lparr>error := Some palettesFailedMessage, isFetchingPalettes := False\<rparr>)"

section \<open>Facts about the part scan\<close>





section \<open>Response mapping returns the first inline image\<close>



section \<open>Diagnostics of a response without an image\<close>







section \<open>Facts about the prompt builders\<close>

lemma toLowerCase_sentinel: "toLowerCase ''Exterior'' = ''exterior''"
  by (simp add: toLowerCase_def toLowerChar_def Let_def char_of_eq_iff)

lemma templates_differ:
  "exteriorPrompt s1 p1 a1 f1 l1 \<noteq> interiorPrompt r2 s2 p2 fl2 f2 l2"
  by (simp add: exteriorPrompt_def interiorPrompt_def)

lemma exteriorPrompt_ends: "\<exists>pre. exteriorPrompt s p a f l = pre @ exteriorOutputLine"
  unfolding exteriorPrompt_def by (metis append.assoc)

lemma interiorPrompt_ends: "\<exists>pre. interiorPrompt r s p fl f l = pre @ interiorOutputLine"
  unfolding interiorPrompt_def by (metis append.assoc)

section \<open>Exterior and interior image prompts\<close>

text \<open>
  Claim C9. For every room type the image prompt is exactly one of the two instruction
  templates, which never coincide; it is the exterior one precisely when the room type
  equals the sentinel \<open>Exterior\<close> up to letter case; and in both branches the prompt text
  ends with the instruction to return only the image, without any surrounding text.
\<close>

theorem image_prompt_branch:
  "imagePrompt plan style roomType newColors =
     (if toLowerCase roomType = toLowerCase ''Exterior''
      then exteriorPrompt style (primaryColor newColors plan) (accentColor newColors plan)
             (furnitureList plan) (lighting plan)
      else interiorPrompt roomType style (primaryColor newColors plan) (flooring plan)
             (furnitureList plan) (lighting plan))
   \<and> exteriorPrompt s1 p1 a1 f1 l1 \<noteq> interiorPrompt r2 s2 p2 fl2 f2 l2
   \<and> (\<exists>pre. imagePrompt plan style roomType newColors =
         pre @ ''Output: Return ONLY the final, ''
             @ (if toLowerCase roomType = toLowerCase ''Exterior'' then ''edited'' else ''redesigned'')
             @ '' image without any surrounding text or explanation.'')"
proof (intro conjI)
  show "imagePrompt plan style roomType newColors =
     (if toLowerCase roomType = toLowerCase ''Exterior''
      then exteriorPrompt style (primaryColor newColors plan) (accentColor newColors plan)
             (furnitureList plan) (lighting plan)
      else interiorPrompt roomType style (primaryColor newColors plan) (flooring plan)
             (furnitureList plan) (lighting plan))"
    by (simp add: imagePrompt_def isExterior_def toLowerCase_sentinel)
  show "exteriorPrompt s1 p1 a1 f1 l1 \<noteq> interiorPrompt r2 s2 p2 fl2 f2 l2"
    by (rule templates_differ)
  show "\<exists>pre. imagePrompt plan style roomType newColors =
         pre @ ''Output: Return ONLY the final, ''
             @ (if toLowerCase roomType = toLowerCase ''Exterior'' then ''edited'' else ''redesigned'')
             @ '' image without any surrounding text or explanation.''"
  proof (cases "isExterior roomType")
    case True
    obtain pre where "exteriorPrompt style (primaryColor newColors plan)
        (accentColor newColors plan) (furnitureList plan) (lighting plan) = pre @ exteriorOutputLine"
      using exteriorPrompt_ends by blast
    with True show ?thesis
      by (simp add: imagePrompt_def isExterior_def toLowerCase_sentinel exteriorOutputLine_def)
  next
    case False
    obtain pre where "interiorPrompt roomType style (primaryColor newColors plan)
        (flooring plan) (furnitureList plan) (lighting plan) = pre @ interiorOutputLine"
      using interiorPrompt_ends by blast
    with False show ?thesis
      by (simp add: imagePrompt_def isExterior_def toLowerCase_sentinel interiorOutputLine_def)
  qed
qed

text \<open>
  The theorem at the room types \<open>EXTERIOR\<close> (exterior template) and \<open>Kitchen\<close>
  (interior template).
\<close>

theorem image_prompt_branch_witness:
  "imagePrompt
     \<lparr>analysis = ''Bright room'', designRationale = ''Balance'',
      wallColor = \<lparr>color = ''White'', accent = ''Gray''\<rparr>, lighting = ''Warm'', flooring = ''Oak'',
      furnitureSuggestions = [\<lparr>name = ''Sofa'', description = ''Plush'', placement = ''Center'',
                               estimatedPrice = 900::nat, modelUrl = None\<rparr>],
      estimatedCost = \<lparr>costMin = 1000::nat, costMax = 2000, currency = ''USD''\<rparr>,
      alternativePalettes = []\<rparr> ''Modern'' ''EXTERIOR'' None
     = exteriorPrompt ''Modern'' ''White'' ''Gray'' ''Sofa'' ''Warm''
   \<and> imagePrompt
     \<lparr>analysis = ''Bright room'', designRationale = ''Balance'',
      wallColor = \<lparr>color = ''White'', accent = ''Gray''\<rparr>, lighting = ''Warm'', flooring = ''Oak'',
      furnitureSuggestions = [\<lparr>name = ''Sofa'', description = ''Plush'', placement = ''Center'',
                               estimatedPrice = 900::nat, modelUrl = None\<rparr>],
      estimatedCost = \<lparr>costMin = 1000::nat, costMax = 2000, currency = ''USD''\<rparr>,
      alternativePalettes = []\<rparr> ''Modern'' ''Kitchen'' None
     = interiorPrompt ''Kitchen'' ''Modern'' ''White'' ''Oak'' ''Sofa'' ''Warm''"
proof -
  let ?p = "\<lparr>analysis = ''Bright room'', designRationale = ''Balance'',
      wallColor = \<lparr>color = ''White'', accent = ''Gray''\<rparr>, lighting = ''Warm'', flooring = ''Oak'',
      furnitureSuggestions = [\<lparr>name = ''Sofa'', description = ''Plush'', placement = ''Center'',
                               estimatedPrice = 900::nat, modelUrl = None\<rparr>],
      estimatedCost = \<lparr>costMin = 1000::nat, costMax = 2000, currency = ''USD''\<rparr>,
      alternativePalettes = []\<rparr>"
  have up: "toLowerCase ''EXTERIOR'' = toLowerCase ''Exterior''"
    by (simp add: toLowerCase_def toLowerChar_def Let_def char_of_eq_iff)
  have kitchen: "toLowerCase ''Kitchen'' \<noteq> toLowerCase ''Exterior''"
    by (simp add: toLowerCase_def)
  have 1: "imagePrompt ?p ''Modern'' ''EXTERIOR'' None
      = exteriorPrompt ''Modern'' ''White'' ''Gray'' ''Sofa'' ''Warm''"
    using image_prompt_branch [of ?p "''Modern''" "''EXTERIOR''" None] up
    by (simp add: primaryColor_def accentColor_def furnitureList_def)
  have 2: "imagePrompt ?p ''Modern'' ''Kitchen'' None
      = interiorPrompt ''Kitchen'' ''Modern'' ''White'' ''Oak'' ''Sofa'' ''Warm''"
    using image_prompt_branch [of ?p "''Modern''" "''Kitchen''" None] kitchen
    by (simp add: primaryColor_def accentColor_def furnitureList_def)
  from 1 2 show ?thesis by simp
qed

section \<open>Effective colors of the image prompt\<close>

text \<open>
  Claim C4, as amended. For every plan and every optional \<open>newColors\<close>, the colors of
  the image prompt are resolved field by field: the primary color is \<open>newColors.color\<close>
  when \<open>newColors\<close> is given and that color is not the empty string, and
  \<open>plan.wallColor.color\<close> otherwise; the accent color likewise from the two accents.
  The exterior template uses both, the interior template the primary color only. So
  without \<open>newColors\<close> the prompt is built from the plan's palette, with a
  \<open>newColors\<close> whose two fields are non-empty it is the prompt of the plan recoloured
  with that palette as a whole, and an empty field of \<open>newColors\<close> is taken from the
  plan.
\<close>

theorem image_prompt_effective_colors:
  "primaryColor newColors plan =
     (case newColors of
        None \<Rightarrow> color (wallColor plan)
      | Some q \<Rightarrow> if color q = [] then color (wallColor plan) else color q)
   \<and> accentColor newColors plan =
     (case newColors of
        None \<Rightarrow> accent (wallColor plan)
      | Some q \<Rightarrow> if accent q = [] then accent (wallColor plan) else accent q)
   \<and> (isExterior roomType \<longrightarrow>
        imagePrompt plan style roomType newColors =
          exteriorPrompt style (primaryColor newColors plan) (accentColor newColors plan)
            (furnitureList plan) (lighting plan))
   \<and> (\<not> isExterior roomType \<longrightarrow>
        imagePrompt plan style roomType newColors =
          interiorPrompt roomType style (primaryColor newColors plan) (flooring plan)
            (furnitureList plan) (lighting plan))
   \<and> (\<forall>q. newColors = Some q \<and> color q \<noteq> [] \<and> accent q \<noteq> [] \<longrightarrow>
         imagePrompt plan style roomType newColors
           = imagePrompt (plan\<lparr>wallColor := q\<rparr>) style roomType None)
   \<and> (\<forall>q. newColors = Some q \<longrightarrow>
         imagePrompt plan style roomType newColors
           = imagePrompt
               (plan\<lparr>wallColor :=
                  \<lparr>color = (if color q = [] then color (wallColor plan) else color q),
                   accent = (if accent q = [] then accent (wallColor plan) else accent q)\<rparr>\<rparr>)
               style roomType None)"
  by (auto simp: imagePrompt_def primaryColor_def accentColor_def furnitureList_def
      split: option.splits)

text \<open>
  The theorem at a recolour request with a full palette, and at a request without
  \<open>newColors\<close>.
\<close>

theorem image_prompt_effective_colors_witness:
  "imagePrompt
     \<lparr>analysis = ''Bright room'', designRationale = ''Balance'',
      wallColor = \<lparr>color = ''White'', accent = ''Gray''\<rparr>, lighting = ''Warm'', flooring = ''Oak'',
      furnitureSuggestions = [\<lparr>name = ''Sofa'', description = ''Plush'', placement = ''Center'',
                               estimatedPrice = 900::nat, modelUrl = None\<rparr>],
      estimatedCost = \<lparr>costMin = 1000::nat, costMax = 2000, currency = ''USD''\<rparr>,
      alternativePalettes = []\<rparr> ''Modern'' ''Exterior'' (Some \<lparr>color = ''Teal'', accent = ''Gold''\<rparr>)
     = exteriorPrompt ''Modern'' ''Teal'' ''Gold'' ''Sofa'' ''Warm''
   \<and> imagePrompt
     \<lparr>analysis = ''Bright room'', designRationale = ''Balance'',
      wallColor = \<lparr>color = ''White'', accent = ''Gray''\<rparr>, lighting = ''Warm'', flooring = ''Oak'',
      furnitureSuggestions = [\<lparr>name = ''Sofa'', description = ''Plush'', placement = ''Center'',
                               estimatedPrice = 900::nat, modelUrl = None\<rparr>],
      estimatedCost = \<lparr>costMin = 1000::nat, costMax = 2000, currency = ''USD''\<rparr>,
      alternativePalettes = []\<rparr> ''Modern'' ''Bedroom'' None
     = interiorPrompt ''Bedroom'' ''Modern'' ''White'' ''Oak'' ''Sofa'' ''Warm''"
proof -
  let ?p = "\<lparr>analysis = ''Bright room'', designRationale = ''Balance'',
      wallColor = \<lparr>color = ''White'', accent = ''Gray''\<rparr>, lighting = ''Warm'', flooring = ''Oak'',
      furnitureSuggestions = [\<lparr>name = ''Sofa'', description = ''Plush'', placement = ''Center'',
                               estimatedPrice = 900::nat, modelUrl = None\<rparr>],
      estimatedCost = \<lparr>costMin = 1000::nat, costMax = 2000, currency = ''USD''\<rparr>,
      alternativePalettes = []\<rparr>"
  have ext: "isExterior ''Exterior''"
    by (simp add: isExterior_def toLowerCase_sentinel)
  have bed: "\<not> isExterior ''Bedroom''"
    by (simp add: isExterior_def toLowerCase_def)
  have 1: "imagePrompt ?p ''Modern'' ''Exterior'' (Some \<lparr>color = ''Teal'', accent = ''Gold''\<rparr>)
      = exteriorPrompt ''Modern'' ''Teal'' ''Gold'' ''Sofa'' ''Warm''"
    using image_prompt_effective_colors
      [of "Some \<lparr>color = ''Teal'', accent = ''Gold''\<rparr>" ?p "''Exterior''" "''Modern''"] ext
    by (simp add: furnitureList_def)
  have 2: "imagePrompt ?p ''Modern'' ''Bedroom'' None
      = interiorPrompt ''Bedroom'' ''Modern'' ''White'' ''Oak'' ''Sofa'' ''Warm''"
    using image_prompt_effective_colors [of None ?p "''Bedroom''" "''Modern''"] bed
    by (simp add: furnitureList_def)
  from 1 2 show ?thesis by simp
qed

text \<open>
  The resolution is not \<open>newColors ?? plan.wallColor\<close> as a whole palette: a
  \<open>newColors\<close> with an empty primary color and the accent \<open>Gold\<close> gives the plan's
  primary color \<open>White\<close> together with the accent \<open>Gold\<close>.
\<close>

theorem whole_palette_resolution_counterexample:
  "primaryColor (Some \<lparr>color = [], accent = ''Gold''\<rparr>)
     \<lparr>analysis = ''Bright room'', designRationale = ''Balance'',
      wallColor = \<lparr>color = ''White'', accent = ''Gray''\<rparr>, lighting = ''Warm'', flooring = ''Oak'',
      furnitureSuggestions = [\<lparr>name = ''Sofa'', description = ''Plush'', placement = ''Center'',
                               estimatedPrice = 900::nat, modelUrl = None\<rparr>],
      estimatedCost = \<lparr>costMin = 1000::nat, costMax = 2000, currency = ''USD''\<rparr>,
      alternativePalettes = []\<rparr>
     \<noteq> color \<lparr>color = [], accent = ''Gold''\<rparr>
   \<and> imagePrompt
     \<lparr>analysis = ''Bright room'', designRationale = ''Balance'',
      wallColor = \<lparr>color = ''White'', accent = ''Gray''\<rparr>, lighting = ''Warm'', flooring = ''Oak'',
      furnitureSuggestions = [\<lparr>name = ''Sofa'', description = ''Plush'', placement = ''Center'',
                               estimatedPrice = 900::nat, modelUrl = None\<rparr>],
      estimatedCost = \<lparr>costMin = 1000::nat, costMax = 2000, currency = ''USD''\<rparr>,
      alternativePalettes = []\<rparr> ''Modern'' ''Exterior'' (Some \<lparr>color = [], accent = ''Gold''\<rparr>)
     = exteriorPrompt ''Modern'' ''White'' ''Gold'' ''Sofa'' ''Warm''
   \<and> exteriorPrompt ''Modern'' ''White'' ''Gold'' ''Sofa'' ''Warm''
     \<noteq> exteriorPrompt ''Modern'' [] ''Gold'' ''Sofa'' ''Warm''"
  by (simp add: imagePrompt_def isExterior_def toLowerCase_sentinel primaryColor_def
      accentColor_def furnitureList_def exteriorPrompt_def)

section \<open>Dimension clause of the plan prompt\<close>

lemma showNat_12: "showNat 12 = ''12''"
  by (simp add: showNat.simps digitChar_def char_of_eq_iff)

lemma showNat_15: "showNat 15 = ''15''"
  by (simp add: showNat.simps digitChar_def char_of_eq_iff)

text \<open>
  Claim C5, as amended. For every dimensions value whose width and length are both
  present and non-zero, the plan-generation prompt contains, between its introduction
  and its task list, a clause with both numeric values and the unit name (\<open>feet\<close> for
  the unit \<open>ft\<close>, \<open>meters\<close> otherwise). For every dimensions value whose width or
  length is absent (the empty string) or zero, and when no dimensions are given, the
  prompt has no dimension clause at all: it is the introduction followed by the task
  list.
\<close>

theorem plan_prompt_dimension_clause:
  "(\<forall>w l. width d = Num w \<and> length_dim d = Num l \<and> w \<noteq> 0 \<and> l \<noteq> 0 \<longrightarrow>
      planPrompt toStr roomType style (Some d) =
        planPromptIntro roomType style
        @ '' The user has specified the room is approximately '' @ toStr w @ '' ''
        @ (if unit d = ''ft'' then ''feet'' else ''meters'') @ '' wide by '' @ toStr l @ '' ''
        @ (if unit d = ''ft'' then ''feet'' else ''meters'')
        @ '' long. Please ensure your furniture suggestions and layout advice are appropriately scaled for a room of this size and explicitly mention this in your analysis.''
        @ planPromptTasks style)
   \<and> (width d = Blank \<or> length_dim d = Blank \<or> width d = Num 0 \<or> length_dim d = Num 0 \<longrightarrow>
        dimensionText toStr (Some d) = []
        \<and> planPrompt toStr roomType style (Some d)
            = planPromptIntro roomType style @ planPromptTasks style)
   \<and> dimensionText toStr None = []
   \<and> planPrompt toStr roomType style None = planPromptIntro roomType style @ planPromptTasks style"
  by (auto simp: planPrompt_def dimensionText_def dimTruthy_def dimensionClause_def unitName_def
      split: dimValue.splits)

text \<open>
  The theorem at a room of 12 by 15 feet, and at a form whose length was left empty.
\<close>

theorem plan_prompt_dimension_clause_witness:
  "planPrompt showNat ''Bedroom'' ''Modern''
     (Some \<lparr>width = Num (12::nat), length_dim = Num 15, unit = ''ft''\<rparr>)
     = planPromptIntro ''Bedroom'' ''Modern''
       @ '' The user has specified the room is approximately 12 feet wide by 15 feet long. Please ensure your furniture suggestions and layout advice are appropriately scaled for a room of this size and explicitly mention this in your analysis.''
       @ planPromptTasks ''Modern''
   \<and> planPrompt showNat ''Bedroom'' ''Modern''
     (Some \<lparr>width = Num (12::nat), length_dim = Blank, unit = ''m''\<rparr>)
     = planPromptIntro ''Bedroom'' ''Modern'' @ planPromptTasks ''Modern''"
proof -
  have 1: "planPrompt showNat ''Bedroom'' ''Modern''
     (Some \<lparr>width = Num (12::nat), length_dim = Num 15, unit = ''ft''\<rparr>)
     = planPromptIntro ''Bedroom'' ''Modern''
       @ '' The user has specified the room is approximately 12 feet wide by 15 feet long. Please ensure your furniture suggestions and layout advice are appropriately scaled for a room of this size and explicitly mention this in your analysis.''
       @ planPromptTasks ''Modern''"
    using plan_prompt_dimension_clause
      [of "\<lparr>width = Num (12::nat), length_dim = Num 15, unit = ''ft''\<rparr>" showNat
          "''Bedroom''" "''Modern''"]
    by (simp add: showNat_12 showNat_15)
  have 2: "planPrompt showNat ''Bedroom'' ''Modern''
     (Some \<lparr>width = Num (12::nat), length_dim = Blank, unit = ''m''\<rparr>)
     = planPromptIntro ''Bedroom'' ''Modern'' @ planPromptTasks ''Modern''"
    using plan_prompt_dimension_clause
      [of "\<lparr>width = Num (12::nat), length_dim = Blank, unit = ''m''\<rparr>" showNat
          "''Bedroom''" "''Modern''"]
    by simp
  from 1 2 show ?thesis by simp
qed

text \<open>
  Presence alone is not enough: with a width of 0 and a length of 12, both present, the
  prompt is the one built without dimensions, and not the one with the clause
  \<open>0 feet wide by 12 feet long\<close>.
\<close>

theorem zero_width_no_clause_counterexample:
  "planPrompt showNat ''Bedroom'' ''Modern''
     (Some \<lparr>width = Num (0::nat), length_dim = Num 12, unit = ''ft''\<rparr>)
     = planPrompt showNat ''Bedroom'' ''Modern'' None
   \<and> planPrompt showNat ''Bedroom'' ''Modern''
     (Some \<lparr>width = Num (0::nat), length_dim = Num 12, unit = ''ft''\<rparr>)
     \<noteq> planPromptIntro ''Bedroom'' ''Modern''
       @ dimensionClause (showNat 0) (showNat 12) (unitName ''ft'')
       @ planPromptTasks ''Modern''"
  by (simp add: planPrompt_def dimensionText_def dimTruthy_def dimensionClause_def)

section \<open>Palettes listed by the more-palettes prompt\<close>

text \<open>
  Claim C8. For every plan with wall color \<open>P0\<close> and alternative palettes
  \<open>[P1, P2, P3]\<close>, the prompt of \<open>generateMorePalettes\<close> lists all four palettes, each
  rendered with its color and its accent, one per line and in this order, right after
  the sentence that says the user has already seen them.
\<close>

theorem more_palettes_prompt_lists_all:
  "alternativePalettes plan = [P1, P2, P3] \<Longrightarrow>
   \<exists>pre. morePalettesPrompt plan style =
     pre @ ''The user has already seen the following palettes, so please provide completely different options that suggest different moods (e.g., one calming, one energetic, one sophisticated): ''
     @ ''- '' @ color (wallColor plan) @ '' & '' @ accent (wallColor plan) @ [CHR 0x0A]
     @ ''- '' @ color P1 @ '' & '' @ accent P1 @ [CHR 0x0A]
     @ ''- '' @ color P2 @ '' & '' @ accent P2 @ [CHR 0x0A]
     @ ''- '' @ color P3 @ '' & '' @ accent P3
     @ '' Return the output as a JSON array of objects, where each object has a 'color' and 'accent' property, according to the provided schema.''"
proof -
  assume alts: "alternativePalettes plan = [P1, P2, P3]"
  let ?seen = "''The user has already seen the following palettes, so please provide completely different options that suggest different moods (e.g., one calming, one energetic, one sophisticated): ''"
  define pre where "pre =
     ''You are an AI color consultant for an interior design app. Based on the following design analysis for a \"''
     @ style
     @ ''\" themed room, please generate exactly 3 new and distinct color palettes. **Design Analysis:** ''
     @ analysis plan @ '' **Important:** ''"
  have intro: "morePalettesIntro style (analysis plan) = pre @ ?seen"
    by (simp add: morePalettesIntro_def pre_def)
  have lines: "existingPalettes plan =
      ''- '' @ color (wallColor plan) @ '' & '' @ accent (wallColor plan) @ [CHR 0x0A]
     @ ''- '' @ color P1 @ '' & '' @ accent P1 @ [CHR 0x0A]
     @ ''- '' @ color P2 @ '' & '' @ accent P2 @ [CHR 0x0A]
     @ ''- '' @ color P3 @ '' & '' @ accent P3"
    by (simp add: existingPalettes_def alts paletteLine_def newline_def)
  have "morePalettesPrompt plan style = pre @ ?seen @ existingPalettes plan @ morePalettesOutro"
    by (simp add: morePalettesPrompt_def intro)
  then show ?thesis
    unfolding lines morePalettesOutro_def by (intro exI [of _ pre]) simp
qed

text \<open>The theorem at a plan with the wall color White and Gray and three alternatives.\<close>

theorem more_palettes_prompt_lists_all_witness:
  "\<exists>pre. morePalettesPrompt
     \<lparr>analysis = ''Bright room'', designRationale = ''Balance'',
      wallColor = \<lparr>color = ''White'', accent = ''Gray''\<rparr>, lighting = ''Warm'', flooring = ''Oak'',
      furnitureSuggestions = [\<lparr>name = ''Sofa'', description = ''Plush'', placement = ''Center'',
                               estimatedPrice = 900::nat, modelUrl = None\<rparr>],
      estimatedCost = \<lparr>costMin = 1000::nat, costMax = 2000, currency = ''USD''\<rparr>,
      alternativePalettes = [\<lparr>color = ''Sage'', accent = ''Cream''\<rparr>,
                             \<lparr>color = ''Navy'', accent = ''Brass''\<rparr>,
                             \<lparr>color = ''Blush'', accent = ''Plum''\<rparr>]\<rparr> ''Modern''
     = pre @ ''The user has already seen the following palettes, so please provide completely different options that suggest different moods (e.g., one calming, one energetic, one sophisticated): ''
       @ ''- White & Gray'' @ [CHR 0x0A] @ ''- Sage & Cream'' @ [CHR 0x0A]
       @ ''- Navy & Brass'' @ [CHR 0x0A] @ ''- Blush & Plum''
       @ '' Return the output as a JSON array of objects, where each object has a 'color' and 'accent' property, according to the provided schema.''"
  using more_palettes_prompt_lists_all
    [of "\<lparr>analysis = ''Bright room'', designRationale = ''Balance'',
      wallColor = \<lparr>color = ''White'', accent = ''Gray''\<rparr>, lighting = ''Warm'', flooring = ''Oak'',
      furnitureSuggestions = [\<lparr>name = ''Sofa'', description = ''Plush'', placement = ''Center'',
                               estimatedPrice = 900::nat, modelUrl = None\<rparr>],
      estimatedCost = \<lparr>costMin = 1000::nat, costMax = 2000, currency = ''USD''\<rparr>,
      alternativePalettes = [\<lparr>color = ''Sage'', accent = ''Cream''\<rparr>,
                             \<lparr>color = ''Navy'', accent = ''Brass''\<rparr>,
                             \<lparr>color = ''Blush'', accent = ''Plum''\<rparr>]\<rparr>"
        "\<lparr>color = ''Sage'', accent = ''Cream''\<rparr>" "\<lparr>color = ''Navy'', accent = ''Brass''\<rparr>"
        "\<lparr>color = ''Blush'', accent = ''Plum''\<rparr>" "''Modern''"]
  by simp

section \<open>The client wrapper of generateRedesignedImage\<close>

text \<open>
  Claim C10. Whenever the HTTP response is successful but its \<open>imageBytes\<close> field is
  absent or the empty string, the client-side \<open>generateRedesignedImage\<close> throws the
  error \<open>API response did not include image data.\<close>; it returns the \<open>imageBytes\<close>
  string only when the response is successful and that field is non-empty. So a 200
  response can still reach the orchestrator as a failure.
\<close>

theorem client_rejects_empty_image:
  "(responseOk r \<and> (imageBytes r = None \<or> imageBytes r = Some []) \<longrightarrow>
      generateRedesignedImage (Inr r) = Inl ''API response did not include image data.'')
   \<and> (responseOk r \<and> imageBytes r = Some bytes \<and> bytes \<noteq> [] \<longrightarrow>
      generateRedesignedImage (Inr r) = Inr bytes)
   \<and> (generateRedesignedImage fetched = Inr result \<longrightarrow>
      result \<noteq> [] \<and> (\<exists>r'. fetched = Inr r' \<and> responseOk r' \<and> imageBytes r' = Some result))"
  by (auto simp: generateRedesignedImage_def callApi_def truthy_def noImageDataMessage_def
      split: sum.splits option.splits if_splits)

text \<open>
  The theorem at three responses with status 200: no \<open>imageBytes\<close>, an empty one, and
  real bytes.
\<close>

theorem client_rejects_empty_image_witness:
  "generateRedesignedImage (Inr \<lparr>status = 200, imageBytes = None, errorField = None\<rparr>)
     = Inl ''API response did not include image data.''
   \<and> generateRedesignedImage (Inr \<lparr>status = 200, imageBytes = Some [], errorField = None\<rparr>)
     = Inl ''API response did not include image data.''
   \<and> generateRedesignedImage (Inr \<lparr>status = 200, imageBytes = Some ''AAAA'', errorField = None\<rparr>)
     = Inr ''AAAA''"
proof -
  have 1: "generateRedesignedImage (Inr \<lparr>status = 200, imageBytes = None, errorField = None\<rparr>)
     = Inl ''API response did not include image data.''"
    using client_rejects_empty_image [of "\<lparr>status = 200, imageBytes = None, errorField = None\<rparr>"]
    by (simp add: responseOk_def)
  have 2: "generateRedesignedImage (Inr \<lparr>status = 200, imageBytes = Some [], errorField = None\<rparr>)
     = Inl ''API response did not include image data.''"
    using client_rejects_empty_image [of "\<lparr>status = 200, imageBytes = Some [], errorField = None\<rparr>"]
    by (simp add: responseOk_def)
  have 3: "generateRedesignedImage (Inr \<lparr>status = 200, imageBytes = Some ''AAAA'', errorField = None\<rparr>)
     = Inr ''AAAA''"
    using client_rejects_empty_image
      [of "\<lparr>status = 200, imageBytes = Some ''AAAA'', errorField = None\<rparr>" "''AAAA''"]
    by (simp add: responseOk_def)
  from 1 2 3 show ?thesis by simp
qed

section \<open>Primary flow: a plan survives a failed image call\<close>

lemma messages_nonempty:
  "planKeptMessage \<noteq> []" "planFailedMessage \<noteq> []" "recolorFailedMessage \<noteq> []"
  by (simp_all add: planKeptMessage_def planFailedMessage_def recolorFailedMessage_def)

text \<open>
  Claim C3. In the primary flow (an image was uploaded, a style and a room type are
  selected), for every pair of outcomes of the two calls: if \<open>generateDesignIdeas\<close>
  returns a plan and the following \<open>generateRedesignedImage\<close> call fails, the final
  state holds that plan and a non-fatal error message, shown as a warning next to the
  plan; if \<open>generateDesignIdeas\<close> itself fails, the final state holds no plan and the
  error message that is fatal for this attempt, shown on the input form. When both
  calls succeed the plan and the image are held and no error is set.
\<close>

theorem primary_flow_keeps_plan:
  assumes "truthy (uploadedImage st)" "selectedStyle st \<noteq> []" "selectedRoomType st \<noteq> []"
  shows "(ideas = Inr plan \<and> redesign = Inl e \<longrightarrow>
           designPlan (handleGenerateClick st ideas redesign) = Some plan
         \<and> error (handleGenerateClick st ideas redesign) = Some planKeptMessage
         \<and> errorBanner (handleGenerateClick st ideas redesign) = YellowWarning planKeptMessage
         \<and> generatedImage (handleGenerateClick st ideas redesign) = None
         \<and> \<not> isLoading (handleGenerateClick st ideas redesign))
       \<and> (ideas = Inl e' \<longrightarrow>
           designPlan (handleGenerateClick st ideas redesign) = None
         \<and> error (handleGenerateClick st ideas redesign) = Some planFailedMessage
         \<and> errorBanner (handleGenerateClick st ideas redesign) = RedError planFailedMessage
         \<and> generatedImage (handleGenerateClick st ideas redesign) = None
         \<and> \<not> isLoading (handleGenerateClick st ideas redesign))
       \<and> (ideas = Inr plan \<and> redesign = Inr bytes \<longrightarrow>
           designPlan (handleGenerateClick st ideas redesign) = Some plan
         \<and> error (handleGenerateClick st ideas redesign) = None
         \<and> generatedImage (handleGenerateClick st ideas redesign) = Some (dataUrl bytes)
         \<and> \<not> isLoading (handleGenerateClick st ideas redesign))"
  using assms
  by (auto simp: handleGenerateClick_def errorBanner_def truthy_def messages_nonempty Let_def)

text \<open>
  The theorem at a session with an uploaded image: a plan followed by a failed image
  call, and a failed plan call.
\<close>

theorem primary_flow_keeps_plan_witness:
  "(let plan = \<lparr>analysis = ''Bright room'', designRationale = ''Balance'',
        wallColor = \<lparr>color = ''White'', accent = ''Gray''\<rparr>, lighting = ''Warm'', flooring = ''Oak'',
        furnitureSuggestions = [\<lparr>name = ''Sofa'', description = ''Plush'', placement = ''Center'',
                                 estimatedPrice = 900::nat, modelUrl = None\<rparr>],
        estimatedCost = \<lparr>costMin = 1000::nat, costMax = 2000, currency = ''USD''\<rparr>,
        alternativePalettes = []\<rparr>;
       st = \<lparr>selectedRoomType = ''Living Room'', selectedStyle = ''Modern'',
        uploadedImage = Some ''QUJD'', designPlan = None, generatedImage = None,
        isLoading = False, isRegenerating = False, isFetchingPalettes = False,
        error = None, feedbackSubmitted = False\<rparr>;
       degraded = handleGenerateClick st (Inr plan) (Inl ''Server error: no image'');
       failed = handleGenerateClick st (Inl ''Server error: overloaded'') (Inl ''not called'')
    in designPlan degraded = Some plan
     \<and> error degraded = Some ''I've created the design plan, but couldn't visualize the room. You can still see the ideas below!''
     \<and> errorBanner degraded = YellowWarning planKeptMessage
     \<and> designPlan failed = None
     \<and> error failed = Some ''Sorry, I couldn't generate a design plan. This can happen if the AI is under heavy load or if the image is unsuitable for analysis. Please try again in a few moments, or with a different photo.''
     \<and> errorBanner failed = RedError planFailedMessage)"
proof -
  let ?plan = "\<lparr>analysis = ''Bright room'', designRationale = ''Balance'',
        wallColor = \<lparr>color = ''White'', accent = ''Gray''\<rparr>, lighting = ''Warm'', flooring = ''Oak'',
        furnitureSuggestions = [\<lparr>name = ''Sofa'', description = ''Plush'', placement = ''Center'',
                                 estimatedPrice = 900::nat, modelUrl = None\<rparr>],
        estimatedCost = \<lparr>costMin = 1000::nat, costMax = 2000, currency = ''USD''\<rparr>,
        alternativePalettes = []\<rparr>"
  let ?st = "\<lparr>selectedRoomType = ''Living Room'', selectedStyle = ''Modern'',
        uploadedImage = Some ''QUJD'', designPlan = None :: (nat, ColorPalette) DesignPlan option,
        generatedImage = None,
        isLoading = False, isRegenerating = False, isFetchingPalettes = False,
        error = None, feedbackSubmitted = False\<rparr>"
  have pre: "truthy (uploadedImage ?st)" "selectedStyle ?st \<noteq> []" "selectedRoomType ?st \<noteq> []"
    by (simp_all add: truthy_def)
  have 1: "designPlan (handleGenerateClick ?st (Inr ?plan) (Inl ''Server error: no image'')) = Some ?plan
     \<and> error (handleGenerateClick ?st (Inr ?plan) (Inl ''Server error: no image'')) = Some planKeptMessage
     \<and> errorBanner (handleGenerateClick ?st (Inr ?plan) (Inl ''Server error: no image''))
         = YellowWarning planKeptMessage"
    using primary_flow_keeps_plan [OF pre, of "Inr ?plan" ?plan "Inl ''Server error: no image''"
        "''Server error: no image''"]
    by simp
  have 2: "designPlan (handleGenerateClick ?st (Inl ''Server error: overloaded'') (Inl ''not called'')) = None
     \<and> error (handleGenerateClick ?st (Inl ''Server error: overloaded'') (Inl ''not called''))
         = Some planFailedMessage
     \<and> errorBanner (handleGenerateClick ?st (Inl ''Server error: overloaded'') (Inl ''not called''))
         = RedError planFailedMessage"
    using primary_flow_keeps_plan [OF pre, of "Inl ''Server error: overloaded''" ?plan
        "Inl ''not called''" "''x''" "''Server error: overloaded''"]
    by simp
  from 1 2 show ?thesis
    by (simp add: Let_def planKeptMessage_def planFailedMessage_def)
qed

section \<open>Recolor flow: the new wall color is kept\<close>

text \<open>
  Claim C6. For every plan with a prior wall color and every palette \<open>P_new\<close>, the
  recolor flow (operable once a plan exists and an image is uploaded) sets the plan's
  \<open>wallColor\<close> to \<open>P_new\<close> before the image call resolves; whatever the outcome of
  the image call, and in particular when it fails, the plan's \<open>wallColor\<close> remains
  \<open>P_new\<close> and is never rolled back; all other fields of the plan are unchanged.
\<close>

theorem recolor_keeps_new_color:
  assumes "designPlan st = Some plan" "truthy (uploadedImage st)"
  shows "designPlan (handleColorChangePending st newColors) = Some (plan\<lparr>wallColor := newColors\<rparr>)
       \<and> designPlan (handleColorChange st newColors redesign) = Some (plan\<lparr>wallColor := newColors\<rparr>)
       \<and> (redesign = Inl e \<longrightarrow>
            error (handleColorChange st newColors redesign) = Some recolorFailedMessage
          \<and> generatedImage (handleColorChange st newColors redesign) = None)
       \<and> (\<exists>plan'. designPlan (handleColorChange st newColors redesign) = Some plan'
            \<and> wallColor plan' = newColors
            \<and> analysis plan' = analysis plan
            \<and> designRationale plan' = designRationale plan
            \<and> lighting plan' = lighting plan
            \<and> flooring plan' = flooring plan
            \<and> furnitureSuggestions plan' = furnitureSuggestions plan
            \<and> estimatedCost plan' = estimatedCost plan
            \<and> alternativePalettes plan' = alternativePalettes plan)"
  using assms
  by (auto simp: handleColorChange_def handleColorChangePending_def colorChangeAllowed_def Let_def
      split: sum.splits)

text \<open>The theorem at a session whose plan is White and Gray, recoloured to Teal and Gold.\<close>

theorem recolor_keeps_new_color_witness:
  "(let plan = \<lparr>analysis = ''Bright room'', designRationale = ''Balance'',
        wallColor = \<lparr>color = ''White'', accent = ''Gray''\<rparr>, lighting = ''Warm'', flooring = ''Oak'',
        furnitureSuggestions = [\<lparr>name = ''Sofa'', description = ''Plush'', placement = ''Center'',
                                 estimatedPrice = 900::nat, modelUrl = None\<rparr>],
        estimatedCost = \<lparr>costMin = 1000::nat, costMax = 2000, currency = ''USD''\<rparr>,
        alternativePalettes = []\<rparr>;
       st = \<lparr>selectedRoomType = ''Living Room'', selectedStyle = ''Modern'',
        uploadedImage = Some ''QUJD'', designPlan = Some plan, generatedImage = Some ''data:old'',
        isLoading = False, isRegenerating = False, isFetchingPalettes = False,
        error = None, feedbackSubmitted = False\<rparr>;
       final = handleColorChange st \<lparr>color = ''Teal'', accent = ''Gold''\<rparr> (Inl ''Server error: busy'')
    in map_option wallColor (designPlan final) = Some \<lparr>color = ''Teal'', accent = ''Gold''\<rparr>
     \<and> error final = Some ''Sorry, I couldn't visualize the new colors. The AI might be busy. Please try selecting them again in a moment.'')"
proof -
  let ?plan = "\<lparr>analysis = ''Bright room'', designRationale = ''Balance'',
        wallColor = \<lparr>color = ''White'', accent = ''Gray''\<rparr>, lighting = ''Warm'', flooring = ''Oak'',
        furnitureSuggestions = [\<lparr>name = ''Sofa'', description = ''Plush'', placement = ''Center'',
                                 estimatedPrice = 900::nat, modelUrl = None\<rparr>],
        estimatedCost = \<lparr>costMin = 1000::nat, costMax = 2000, currency = ''USD''\<rparr>,
        alternativePalettes = []\<rparr>"
  let ?st = "\<lparr>selectedRoomType = ''Living Room'', selectedStyle = ''Modern'',
        uploadedImage = Some ''QUJD'', designPlan = Some ?plan, generatedImage = Some ''data:old'',
        isLoading = False, isRegenerating = False, isFetchingPalettes = False,
        error = None, feedbackSubmitted = False\<rparr>"
  have pre: "designPlan ?st = Some ?plan" "truthy (uploadedImage ?st)"
    by (simp_all add: truthy_def)
  have "designPlan (handleColorChange ?st \<lparr>color = ''Teal'', accent = ''Gold''\<rparr> (Inl ''Server error: busy''))
          = Some (?plan\<lparr>wallColor := \<lparr>color = ''Teal'', accent = ''Gold''\<rparr>\<rparr>)
     \<and> error (handleColorChange ?st \<lparr>color = ''Teal'', accent = ''Gold''\<rparr> (Inl ''Server error: busy''))
          = Some recolorFailedMessage"
    using recolor_keeps_new_color [OF pre, of "\<lparr>color = ''Teal'', accent = ''Gold''\<rparr>"
        "Inl ''Server error: busy''" "''Server error: busy''"]
    by simp
  then show ?thesis
    by (simp add: Let_def recolorFailedMessage_def)
qed

section \<open>The serialized form of an object identifies its properties\<close>

lemma hexDigit_inj: "a < 16 \<Longrightarrow> b < 16 \<Longrightarrow> hexDigit a = hexDigit b \<Longrightarrow> a = b"
  by (auto simp: hexDigit_def split: if_splits)

lemma hex_pair_inj:
  assumes "(of_char c :: nat) < 32" "(of_char d :: nat) < 32"
    and hi: "hexDigit ((of_char c :: nat) div 16) = hexDigit ((of_char d :: nat) div 16)"
    and lo: "hexDigit ((of_char c :: nat) mod 16) = hexDigit ((of_char d :: nat) mod 16)"
  shows "c = d"
proof -
  have "(of_char c :: nat) div 16 = of_char d div 16"
    using assms(1,2) by (intro hexDigit_inj [OF _ _ hi]) auto
  moreover have "(of_char c :: nat) mod 16 = of_char d mod 16"
    by (intro hexDigit_inj [OF _ _ lo]) auto
  ultimately have "(of_char c :: nat) = of_char d"
    by (metis div_mult_mod_eq)
  then show ?thesis by simp
qed

lemma escapeChar_prefix_free:
  "escapeChar c @ r = escapeChar d @ s \<Longrightarrow> c = d \<and> r = s"
  by (auto simp: escapeChar_def split: if_splits dest: hex_pair_inj)

lemma escapeChar_not_quote: "escapeChar c @ r \<noteq> CHR 0x22 # s"
  by (auto simp: escapeChar_def split: if_splits)

lemma escaped_body_inj:
  "concat (map escapeChar xs) @ CHR 0x22 # r = concat (map escapeChar ys) @ CHR 0x22 # s
   \<Longrightarrow> xs = ys \<and> r = s"
proof (induction xs arbitrary: ys)
  case Nil
  then show ?case
    by (cases ys) (auto simp: escapeChar_not_quote [symmetric])
next
  case (Cons x xs)
  show ?case
  proof (cases ys)
    case Nil
    with Cons.prems show ?thesis by (auto simp: escapeChar_not_quote)
  next
    case (Cons y ys')
    with Cons.prems have "escapeChar x @ (concat (map escapeChar xs) @ CHR 0x22 # r)
        = escapeChar y @ (concat (map escapeChar ys') @ CHR 0x22 # s)"
      by simp
    from escapeChar_prefix_free [OF this] Cons.IH [of ys'] Cons show ?thesis by simp
  qed
qed

lemma quoteJSONString_inj:
  "quoteJSONString a @ r = quoteJSONString b @ s \<Longrightarrow> a = b \<and> r = s"
  unfolding quoteJSONString_def using escaped_body_inj [of a r b s] by simp

lemma stringifyProperty_inj:
  assumes "stringifyProperty e @ r = stringifyProperty f @ s"
  shows "e = f \<and> r = s"
proof -
  from assms have "quoteJSONString (fst e) @ ('':'' @ quoteJSONString (snd e) @ r)
      = quoteJSONString (fst f) @ ('':'' @ quoteJSONString (snd f) @ s)"
    by (simp add: stringifyProperty_def)
  from quoteJSONString_inj [OF this]
  have k: "fst e = fst f" and rest: "quoteJSONString (snd e) @ r = quoteJSONString (snd f) @ s"
    by simp_all
  from quoteJSONString_inj [OF rest] k show ?thesis
    by (simp add: prod_eq_iff)
qed

lemma stringifyProperty_starts:
  "stringifyProperty e @ r \<noteq> CHR ''}'' # s" "stringifyProperty e @ r \<noteq> CHR '','' # s"
  by (simp_all add: stringifyProperty_def quoteJSONString_def)

lemma join_Cons: "join sep (x # xs) = x @ (if xs = [] then [] else sep @ join sep xs)"
  by (cases xs) simp_all

lemma properties_inj:
  "join '','' (map stringifyProperty ps) @ CHR ''}'' # r
     = join '','' (map stringifyProperty qs) @ CHR ''}'' # s
   \<Longrightarrow> ps = qs \<and> r = s"
proof (induction ps arbitrary: qs)
  case Nil
  then show ?case
    by (cases qs) (auto simp: join_Cons stringifyProperty_starts(1) [symmetric])
next
  case (Cons e es)
  show ?case
  proof (cases qs)
    case Nil
    with Cons.prems show ?thesis
      by (auto simp: join_Cons stringifyProperty_starts(1))
  next
    case (Cons f fs)
    let ?tail = "\<lambda>xs t. (if xs = [] then [] else '','' @ join '','' (map stringifyProperty xs))
                        @ CHR ''}'' # t"
    from Cons.prems Cons have "stringifyProperty e @ ?tail es r = stringifyProperty f @ ?tail fs s"
      by (simp add: join_Cons)
    from stringifyProperty_inj [OF this] have ef: "e = f" and tl: "?tail es r = ?tail fs s"
      by simp_all
    show ?thesis
    proof (cases "es = []")
      case True
      with tl have "fs = [] \<and> r = s" by (auto split: if_splits)
      with True ef Cons show ?thesis by simp
    next
      case False
      with tl have fs: "fs \<noteq> []" by (auto split: if_splits)
      with tl False have "join '','' (map stringifyProperty es) @ CHR ''}'' # r
          = join '','' (map stringifyProperty fs) @ CHR ''}'' # s"
        by simp
      from Cons.IH [OF this] ef Cons show ?thesis by simp
    qed
  qed
qed

lemma stringify_inj: "stringify p = stringify q \<longleftrightarrow> p = q"
proof
  assume "stringify p = stringify q"
  then have "join '','' (map stringifyProperty p) @ CHR ''}'' # []
      = join '','' (map stringifyProperty q) @ CHR ''}'' # []"
    by (simp add: stringify_def)
  from properties_inj [OF this] show "p = q" by simp
qed simp

lemma member_stringify: "stringify p \<in> stringify ` S \<longleftrightarrow> p \<in> S"
  by (auto simp: stringify_inj)

section \<open>More-palettes flow: merging without duplicates\<close>

text \<open>
  Claim C7, as amended. The more-palettes merge drops every returned palette whose
  serialized form equals the serialized form of a palette already in
  \<open>alternativePalettes\<close>, and appends the others in response order after the existing
  palettes, none of which is removed or replaced; the other fields of the plan are
  untouched. Two palettes have the same serialized form exactly when they carry the
  same properties, in the same order, with the same values: for palettes written as
  \<open>color\<close> then \<open>accent\<close> and nothing else this is equality of the two fields, while a
  palette with the same fields in the other order is not a duplicate. In particular,
  when every returned palette has the serialized form of an existing one, the plan,
  and with it \<open>alternativePalettes\<close>, is unchanged.
\<close>

theorem merge_palettes_dedup:
  "mergePalettes (Some plan) newPalettes =
     Some (plan\<lparr>alternativePalettes :=
             alternativePalettes plan
             @ filter (\<lambda>p. stringify p \<notin> stringify ` set (alternativePalettes plan)) newPalettes\<rparr>)
   \<and> (stringify p = stringify q \<longleftrightarrow> p = q)
   \<and> mergePalettes (Some plan) newPalettes =
     Some (plan\<lparr>alternativePalettes :=
             alternativePalettes plan
             @ filter (\<lambda>p. p \<notin> set (alternativePalettes plan)) newPalettes\<rparr>)
   \<and> ((\<forall>p \<in> set newPalettes. \<exists>q \<in> set (alternativePalettes plan). stringify p = stringify q) \<longrightarrow>
        mergePalettes (Some plan) newPalettes = Some plan)
   \<and> (designPlan st = Some plan \<longrightarrow>
        designPlan (handleSuggestMorePalettes st (Inr newPalettes))
          = mergePalettes (Some plan) newPalettes)
   \<and> (stringify [(''color'', c), (''accent'', a)] = stringify [(''color'', c'), (''accent'', a')]
        \<longleftrightarrow> c = c' \<and> a = a')
   \<and> stringify [(''color'', c), (''accent'', a)] \<noteq> stringify [(''accent'', a'), (''color'', c')]"
proof (intro conjI impI)
  show byText: "mergePalettes (Some plan) newPalettes =
     Some (plan\<lparr>alternativePalettes :=
             alternativePalettes plan
             @ filter (\<lambda>p. stringify p \<notin> stringify ` set (alternativePalettes plan)) newPalettes\<rparr>)"
    by (simp add: mergePalettes_def)
  show "stringify p = stringify q \<longleftrightarrow> p = q"
    by (rule stringify_inj)
  show merged: "mergePalettes (Some plan) newPalettes =
     Some (plan\<lparr>alternativePalettes :=
             alternativePalettes plan
             @ filter (\<lambda>p. p \<notin> set (alternativePalettes plan)) newPalettes\<rparr>)"
    by (simp add: mergePalettes_def member_stringify)
  show "mergePalettes (Some plan) newPalettes = Some plan"
    if "\<forall>p \<in> set newPalettes. \<exists>q \<in> set (alternativePalettes plan). stringify p = stringify q"
  proof -
    from that have "\<forall>p \<in> set newPalettes. p \<in> set (alternativePalettes plan)"
      by (auto simp: stringify_inj)
    then have "filter (\<lambda>p. p \<notin> set (alternativePalettes plan)) newPalettes = []"
      by (auto simp: filter_empty_conv)
    with merged show ?thesis by simp
  qed
  show "designPlan (handleSuggestMorePalettes st (Inr newPalettes))
          = mergePalettes (Some plan) newPalettes"
    if "designPlan st = Some plan"
    using that by (simp add: handleSuggestMorePalettes_def)
  show "stringify [(''color'', c), (''accent'', a)] = stringify [(''color'', c'), (''accent'', a')]
        \<longleftrightarrow> c = c' \<and> a = a'"
    by (simp add: stringify_inj)
  show "stringify [(''color'', c), (''accent'', a)] \<noteq> stringify [(''accent'', a'), (''color'', c')]"
    by (simp add: stringify_inj)
qed

text \<open>
  The theorem at a plan with three alternatives: a response that repeats all three
  changes nothing, and of a response with a new palette, a repeat and a palette that
  differs from an existing one in the letter case of its accent, the first and the
  last are appended.
\<close>

theorem merge_palettes_dedup_witness:
  "(let plan = \<lparr>analysis = ''Bright room'', designRationale = ''Balance'',
        wallColor = [(''color'', ''White''), (''accent'', ''Gray'')],
        lighting = ''Warm'', flooring = ''Oak'',
        furnitureSuggestions = [\<lparr>name = ''Sofa'', description = ''Plush'', placement = ''Center'',
                                 estimatedPrice = 900::nat, modelUrl = None\<rparr>],
        estimatedCost = \<lparr>costMin = 1000::nat, costMax = 2000, currency = ''USD''\<rparr>,
        alternativePalettes = [[(''color'', ''Sage''), (''accent'', ''Cream'')],
                               [(''color'', ''Navy''), (''accent'', ''Brass'')],
                               [(''color'', ''Blush''), (''accent'', ''Plum'')]]\<rparr>
    in mergePalettes (Some plan)
         [[(''color'', ''Navy''), (''accent'', ''Brass'')], [(''color'', ''Blush''), (''accent'', ''Plum'')],
          [(''color'', ''Sage''), (''accent'', ''Cream'')]] = Some plan
     \<and> map_option alternativePalettes (mergePalettes (Some plan)
         [[(''color'', ''Rust''), (''accent'', ''Sand'')], [(''color'', ''Navy''), (''accent'', ''Brass'')],
          [(''color'', ''Navy''), (''accent'', ''brass'')]])
       = Some [[(''color'', ''Sage''), (''accent'', ''Cream'')], [(''color'', ''Navy''), (''accent'', ''Brass'')],
               [(''color'', ''Blush''), (''accent'', ''Plum'')], [(''color'', ''Rust''), (''accent'', ''Sand'')],
               [(''color'', ''Navy''), (''accent'', ''brass'')]])"
proof -
  let ?plan = "\<lparr>analysis = ''Bright room'', designRationale = ''Balance'',
        wallColor = [(''color'', ''White''), (''accent'', ''Gray'')],
        lighting = ''Warm'', flooring = ''Oak'',
        furnitureSuggestions = [\<lparr>name = ''Sofa'', description = ''Plush'', placement = ''Center'',
                                 estimatedPrice = 900::nat, modelUrl = None\<rparr>],
        estimatedCost = \<lparr>costMin = 1000::nat, costMax = 2000, currency = ''USD''\<rparr>,
        alternativePalettes = [[(''color'', ''Sage''), (''accent'', ''Cream'')],
                               [(''color'', ''Navy''), (''accent'', ''Brass'')],
                               [(''color'', ''Blush''), (''accent'', ''Plum'')]]\<rparr>"
  let ?same = "[[(''color'', ''Navy''), (''accent'', ''Brass'')], [(''color'', ''Blush''), (''accent'', ''Plum'')],
          [(''color'', ''Sage''), (''accent'', ''Cream'')]]"
  let ?mixed = "[[(''color'', ''Rust''), (''accent'', ''Sand'')], [(''color'', ''Navy''), (''accent'', ''Brass'')],
          [(''color'', ''Navy''), (''accent'', ''brass'')]]"
  have 1: "mergePalettes (Some ?plan) ?same = Some ?plan"
    using merge_palettes_dedup [of ?plan ?same] by simp
  have 2: "map_option alternativePalettes (mergePalettes (Some ?plan) ?mixed)
       = Some [[(''color'', ''Sage''), (''accent'', ''Cream'')], [(''color'', ''Navy''), (''accent'', ''Brass'')],
               [(''color'', ''Blush''), (''accent'', ''Plum'')], [(''color'', ''Rust''), (''accent'', ''Sand'')],
               [(''color'', ''Navy''), (''accent'', ''brass'')]]"
    using merge_palettes_dedup [of ?plan ?mixed] by simp
  from 1 2 show ?thesis by (simp add: Let_def)
qed

text \<open>
  Equality of the two fields is not what the merge tests: a returned palette with the
  accent \<open>Brass\<close> and the color \<open>Navy\<close>, its properties in this order, has the same
  fields as the existing palette with the color \<open>Navy\<close> and the accent \<open>Brass\<close>, and is
  appended all the same, so that a response of which every palette equals an existing
  one field by field makes the list longer.
\<close>

theorem field_equal_palette_appended_counterexample:
  "sameFields [(''accent'', ''Brass''), (''color'', ''Navy'')] [(''color'', ''Navy''), (''accent'', ''Brass'')]
   \<and> stringify [(''color'', ''Navy''), (''accent'', ''Brass'')] = ''{\"color\":\"Navy\",\"accent\":\"Brass\"}''
   \<and> stringify [(''accent'', ''Brass''), (''color'', ''Navy'')] = ''{\"accent\":\"Brass\",\"color\":\"Navy\"}''
   \<and> map_option alternativePalettes
        (mergePalettes
          (Some \<lparr>analysis = ''Bright room'', designRationale = ''Balance'',
            wallColor = [(''color'', ''White''), (''accent'', ''Gray'')],
            lighting = ''Warm'', flooring = ''Oak'',
            furnitureSuggestions = [\<lparr>name = ''Sofa'', description = ''Plush'', placement = ''Center'',
                                     estimatedPrice = 900::nat, modelUrl = None\<rparr>],
            estimatedCost = \<lparr>costMin = 1000::nat, costMax = 2000, currency = ''USD''\<rparr>,
            alternativePalettes = [[(''color'', ''Navy''), (''accent'', ''Brass'')]]\<rparr>)
          [[(''accent'', ''Brass''), (''color'', ''Navy'')]])
      = Some [[(''color'', ''Navy''), (''accent'', ''Brass'')],
              [(''accent'', ''Brass''), (''color'', ''Navy'')]]"
proof (intro conjI)
  show "sameFields [(''accent'', ''Brass''), (''color'', ''Navy'')]
      [(''color'', ''Navy''), (''accent'', ''Brass'')]"
    by (simp add: sameFields_def getProperty_def)
  show "stringify [(''color'', ''Navy''), (''accent'', ''Brass'')] = ''{\"color\":\"Navy\",\"accent\":\"Brass\"}''"
    by (simp add: stringify_def stringifyProperty_def quoteJSONString_def escapeChar_def)
  show "stringify [(''accent'', ''Brass''), (''color'', ''Navy'')] = ''{\"accent\":\"Brass\",\"color\":\"Navy\"}''"
    by (simp add: stringify_def stringifyProperty_def quoteJSONString_def escapeChar_def)
  show "map_option alternativePalettes
        (mergePalettes
          (Some \<lparr>analysis = ''Bright room'', designRationale = ''Balance'',
            wallColor = [(''color'', ''White''), (''accent'', ''Gray'')],
            lighting = ''Warm'', flooring = ''Oak'',
            furnitureSuggestions = [\<lparr>name = ''Sofa'', description = ''Plush'', placement = ''Center'',
                                     estimatedPrice = 900::nat, modelUrl = None\<rparr>],
            estimatedCost = \<lparr>costMin = 1000::nat, costMax = 2000, currency = ''USD''\<rparr>,
            alternativePalettes = [[(''color'', ''Navy''), (''accent'', ''Brass'')]]\<rparr>)
          [[(''accent'', ''Brass''), (''color'', ''Navy'')]])
      = Some [[(''color'', ''Navy''), (''accent'', ''Brass'')],
              [(''accent'', ''Brass''), (''color'', ''Navy'')]]"
    by (simp add: mergePalettes_def Let_def stringify_inj)
qed

end
